theory Spec2Isabelle
  imports Complex_Main "HOL-Library.Word"
begin

section \<open>Lead generation API: handlers.js and index.js\<close>

text \<open>
  The three handlers of handlers.js and the two composite routes of index.js, as
  functions from their inputs to the HTTP response and the list of outside calls made,
  in order. Everything outside the repository (the HTTP client, the URL parser,
  JSON.parse, the Sheets and Drive clients, the XLSX writer, the response's setHeader, the
  clock, the text of the engine's TypeError) is a field of \<open>externals\<close>; a call that throws
  returns \<open>Inl\<close> with the message of the exception.

  Conventions: a JavaScript value that may be \<open>undefined\<close> is an \<open>option\<close>; a string is a
  \<open>string\<close> whose characters are the code points below 256, so text with a code point
  beyond that is outside the model; \<open>maxResults\<close> is an integer (the spec's result count),
  so fractional and non-numeric values of that field are outside the model; the request
  body is always an object, as express.json() leaves it; an element of the array given
  to the file export is an object or \<open>null\<close> (\<open>None\<close>).
\<close>

subsection \<open>JavaScript values\<close>

type_synonym 'a thrown = "string + 'a"

definition falsy :: "string option \<Rightarrow> bool" where
  \<comment> \<open>\<open>!v\<close> for a value that is a string or undefined\<close>
  "falsy v = (case v of None \<Rightarrow> True | Some s \<Rightarrow> s = [])"

definition template :: "string option \<Rightarrow> string" where
  \<comment> \<open>\<open>${v}\<close> inside a template literal, and ToString of an argument\<close>
  "template v = (case v of None \<Rightarrow> ''undefined'' | Some s \<Rightarrow> s)"

definition or_else :: "string option \<Rightarrow> string \<Rightarrow> string" where
  \<comment> \<open>\<open>v || d\<close>\<close>
  "or_else v d = (if falsy v then d else the v)"

definition slice0 :: "'a list \<Rightarrow> int \<Rightarrow> 'a list" where
  \<comment> \<open>\<open>xs.slice(0, e)\<close>: a negative end counts from the end of the array\<close>
  "slice0 xs e =
     (let len = int (length xs);
          final = (if e < 0 then max (len + e) 0 else min e len)
      in take (nat final) xs)"

datatype json =
    JNull
  | JBool bool
  | JNum rat
  | JStr string
  | JArr "json list"
  | JObj "(string \<times> json) list"

fun truthy :: "json \<Rightarrow> bool" where
  "truthy JNull = False"
| "truthy (JBool b) = b"
| "truthy (JNum r) = (r \<noteq> 0)"
| "truthy (JStr s) = (s \<noteq> [])"
| "truthy (JArr xs) = True"
| "truthy (JObj kvs) = True"

fun member :: "json \<Rightarrow> string \<Rightarrow> json option" where
  \<comment> \<open>\<open>v.name\<close> on a value that is neither null nor undefined\<close>
  "member (JObj kvs) name = map_of kvs name"
| "member v name = None"

subsection \<open>Data model\<close>

record listing =
  title :: "string option"
  link :: "string option"
  snippet :: "string option"
  source :: "string option"

record api_item =
  item_title :: "string option"
  item_link :: "string option"
  item_snippet :: "string option"

record search_params =
  param_key :: string
  param_cx :: string
  param_q :: string
  param_num :: nat
  param_start :: nat

record jwt =
  jwt_email :: "json option"
  jwt_key :: "json option"
  jwt_scopes :: "string list"

record create_request =
  doc_title :: "string option"
  sheet_title :: string
  rowCount :: nat
  columnCount :: nat

record update_request =
  upd_spreadsheetId :: string
  upd_range :: string
  valueInputOption :: string
  upd_values :: "string option list list"

record permission_request =
  fileId :: string
  perm_role :: string
  perm_type :: string

type_synonym buffer = "8 word list"

type_synonym workbook = "(string \<times> string list list) list"

datatype event =
    AxiosGet search_params
  | SpreadsheetsCreate jwt create_request
  | ValuesUpdate jwt update_request
  | PermissionsCreate jwt permission_request
  | XlsxWrite workbook

record env =
  GOOGLE_API_KEY :: "string option"
  GOOGLE_CX :: "string option"
  GOOGLE_SHEETS_CREDENTIALS :: "string option"

datatype header_value = HStr string | HNum nat

record externals =
  axios_get :: "search_params \<Rightarrow> api_item list option thrown"
  URL_hostname :: "string \<Rightarrow> string thrown"
  JSON_parse :: "string \<Rightarrow> json thrown"
  spreadsheets_create :: "jwt \<Rightarrow> create_request \<Rightarrow> string thrown"
  values_update :: "jwt \<Rightarrow> update_request \<Rightarrow> unit thrown"
  permissions_create :: "jwt \<Rightarrow> permission_request \<Rightarrow> unit thrown"
  XLSX_write :: "workbook \<Rightarrow> buffer thrown"
  setHeader :: "string \<Rightarrow> header_value \<Rightarrow> unit thrown"
  null_TypeError :: string
  toLocaleDateString :: string

datatype body =
    Error string
  | Results "listing list"
  | Spreadsheet string string nat
  | Summary string string string nat string string
  | File buffer

record response =
  status :: nat
  headers :: "(string \<times> header_value) list"
  body :: body

definition json :: "nat \<Rightarrow> body \<Rightarrow> response" where
  \<comment> \<open>\<open>res.status(code).json(b)\<close>; \<open>res.json(b)\<close> is \<open>json 200 b\<close>\<close>
  "json code b = \<lparr>status = code, headers = [], body = b\<rparr>"

datatype 'a js_data = Missing | NotArray | Array "'a list"

subsection \<open>googleSearchHandler\<close>

definition maxRequestsNeeded :: "int \<Rightarrow> int" where
  \<comment> \<open>\<open>Math.ceil(maxResults / 10)\<close>\<close>
  "maxRequestsNeeded maxResults = \<lceil>(of_int maxResults :: rat) / 10\<rceil>"

definition search_query :: "string option \<Rightarrow> string option \<Rightarrow> string" where
  "search_query jobTitle location =
     ''site:linkedin.com OR site:indeed.com OR site:glassdoor.com OR site:monster.com OR site:ziprecruiter.com ''
     @ [CHR 0x22] @ ''Looking for '' @ template jobTitle @ [CHR 0x22] @ '' ''
     @ (if falsy location then '''' else [CHR 0x22] @ template location @ [CHR 0x22])"

fun format_items :: "(string \<Rightarrow> string thrown) \<Rightarrow> api_item list \<Rightarrow> listing list thrown" where
  \<comment> \<open>\<open>items.map(item => ({..., source: new URL(item.link).hostname}))\<close>\<close>
  "format_items hostname [] = Inr []"
| "format_items hostname (item # items) =
     (case hostname (template (item_link item)) of
        Inl e \<Rightarrow> Inl e
      | Inr h \<Rightarrow>
          (case format_items hostname items of
             Inl e \<Rightarrow> Inl e
           | Inr rest \<Rightarrow>
               Inr (\<lparr>title = item_title item, link = item_link item,
                     snippet = item_snippet item, source = Some h\<rparr> # rest)))"

definition page_params :: "string \<Rightarrow> string \<Rightarrow> string \<Rightarrow> nat \<Rightarrow> search_params" where
  \<comment> \<open>the \<open>params\<close> of request \<open>i\<close>; \<open>startIndex = i * 10 + 1\<close>\<close>
  "page_params apiKey cx query i =
     \<lparr>param_key = apiKey, param_cx = cx, param_q = query,
      param_num = 10, param_start = i * 10 + 1\<rparr>"

function search_loop ::
  "externals \<Rightarrow> string \<Rightarrow> string \<Rightarrow> string \<Rightarrow> int \<Rightarrow> int \<Rightarrow> nat \<Rightarrow> listing list
     \<Rightarrow> listing list thrown \<times> event list" where
  "search_loop ext apiKey cx query maxResults n i allResults =
     (if int i < n then
        (let params = page_params apiKey cx query i
         in case axios_get ext params of
              Inl e \<Rightarrow> (Inl e, [AxiosGet params])
            | Inr None \<Rightarrow> (Inr allResults, [AxiosGet params])
            | Inr (Some items) \<Rightarrow>
                if 0 < length items then
                  (case format_items (URL_hostname ext) items of
                     Inl e \<Rightarrow> (Inl e, [AxiosGet params])
                   | Inr formattedResults \<Rightarrow>
                       if maxResults \<le> int (length (allResults @ formattedResults))
                       then (Inr (allResults @ formattedResults), [AxiosGet params])
                       else (case search_loop ext apiKey cx query maxResults n (Suc i)
                                    (allResults @ formattedResults) of
                               (r, calls) \<Rightarrow> (r, AxiosGet params # calls)))
                else (Inr allResults, [AxiosGet params]))
      else (Inr allResults, []))"
  by pat_completeness auto
termination
  by (relation "measure (\<lambda>(ext, apiKey, cx, query, maxResults, n, i, allResults). nat (n - int i))")
     auto

definition googleSearchHandler ::
  "externals \<Rightarrow> env \<Rightarrow> string option \<Rightarrow> string option \<Rightarrow> int option
     \<Rightarrow> response \<times> event list" where
  "googleSearchHandler ext e jobTitle location maxResultsOpt =
     (let maxResults = (case maxResultsOpt of None \<Rightarrow> 50 | Some m \<Rightarrow> m);
          apiKey = GOOGLE_API_KEY e;
          cx = GOOGLE_CX e
      in if falsy apiKey \<or> falsy cx then
           (json 500 (Error ''Missing Google API credentials. Set GOOGLE_API_KEY and GOOGLE_CX environment variables.''), [])
         else
           (case search_loop ext (the apiKey) (the cx) (search_query jobTitle location)
                   maxResults (maxRequestsNeeded maxResults) 0 [] of
              (Inl msg, calls) \<Rightarrow> (json 500 (Error msg), calls)
            | (Inr allResults, calls) \<Rightarrow>
                (json 200 (Results (slice0 allResults maxResults)), calls)))"

declare search_loop.simps [simp del]

subsection \<open>createSpreadsheetHandler\<close>

definition sheet_header :: "string list" where
  "sheet_header = [''Title'', ''Link'', ''Description'', ''Source'']"

definition sheet_values :: "listing list \<Rightarrow> string option list list" where
  \<comment> \<open>\<open>[header, ...data.map(item => [item.title, item.link, item.snippet, item.source])]\<close>\<close>
  "sheet_values data =
     map Some sheet_header
     # map (\<lambda>item. [title item, link item, snippet item, source item]) data"

definition spreadsheetUrl :: "string \<Rightarrow> string" where
  "spreadsheetUrl spreadsheetId =
     ''https://docs.google.com/spreadsheets/d/'' @ spreadsheetId @ ''/edit?usp=sharing''"

definition jwt_client :: "json \<Rightarrow> jwt" where
  \<comment> \<open>\<open>new google.auth.JWT(credentials.client_email, null, credentials.private_key, [...])\<close>\<close>
  "jwt_client credentials =
     \<lparr>jwt_email = member credentials ''client_email'',
      jwt_key = member credentials ''private_key'',
      jwt_scopes = [''https://www.googleapis.com/auth/spreadsheets'',
                    ''https://www.googleapis.com/auth/drive'']\<rparr>"

definition creation :: "string option \<Rightarrow> listing list \<Rightarrow> create_request" where
  \<comment> \<open>the \<open>resource\<close> of \<open>sheets.spreadsheets.create\<close>\<close>
  "creation ttl data =
     \<lparr>doc_title = ttl, sheet_title = ''Job Listings'',
      rowCount = length data + 1, columnCount = 4\<rparr>"

definition bulk_update :: "string \<Rightarrow> listing list \<Rightarrow> update_request" where
  \<comment> \<open>the argument of \<open>sheets.spreadsheets.values.update\<close>\<close>
  "bulk_update spreadsheetId data =
     \<lparr>upd_spreadsheetId = spreadsheetId, upd_range = ''Job Listings!A1'',
      valueInputOption = ''RAW'', upd_values = sheet_values data\<rparr>"

definition permission :: "string \<Rightarrow> permission_request" where
  \<comment> \<open>the argument of \<open>drive.permissions.create\<close>\<close>
  "permission spreadsheetId =
     \<lparr>fileId = spreadsheetId, perm_role = ''writer'', perm_type = ''anyone''\<rparr>"

definition createSpreadsheetHandler ::
  "externals \<Rightarrow> env \<Rightarrow> string option \<Rightarrow> listing list \<Rightarrow> response \<times> event list" where
  "createSpreadsheetHandler ext e ttl data =
     (case JSON_parse ext (template (GOOGLE_SHEETS_CREDENTIALS e)) of
        Inl msg \<Rightarrow> (json 500 (Error msg), [])
      | Inr credentials \<Rightarrow>
          if \<not> truthy credentials then
            (json 500 (Error ''Missing Google Sheets credentials. Set GOOGLE_SHEETS_CREDENTIALS environment variable.''), [])
          else
            (let auth = jwt_client credentials
             in case spreadsheets_create ext auth (creation ttl data) of
                  Inl msg \<Rightarrow>
                    (json 500 (Error msg), [SpreadsheetsCreate auth (creation ttl data)])
                | Inr spreadsheetId \<Rightarrow>
                    (case values_update ext auth (bulk_update spreadsheetId data) of
                       Inl msg \<Rightarrow>
                         (json 500 (Error msg),
                          [SpreadsheetsCreate auth (creation ttl data),
                           ValuesUpdate auth (bulk_update spreadsheetId data)])
                     | Inr u \<Rightarrow>
                         (case permissions_create ext auth (permission spreadsheetId) of
                            Inl msg \<Rightarrow>
                              (json 500 (Error msg),
                               [SpreadsheetsCreate auth (creation ttl data),
                                ValuesUpdate auth (bulk_update spreadsheetId data),
                                PermissionsCreate auth (permission spreadsheetId)])
                          | Inr u' \<Rightarrow>
                              (json 200
                                 (Spreadsheet spreadsheetId (spreadsheetUrl spreadsheetId)
                                    (length data)),
                               [SpreadsheetsCreate auth (creation ttl data),
                                ValuesUpdate auth (bulk_update spreadsheetId data),
                                PermissionsCreate auth (permission spreadsheetId)])))))"

subsection \<open>exportToExcelHandler\<close>

definition worksheetData :: "listing list \<Rightarrow> string list list" where
  \<comment> \<open>\<open>[headers, ...data.map(item => [item.title || '', item.link || '', ...])]\<close> for
      an array of objects; on a \<open>null\<close> element \<open>item.title\<close> throws (\<open>those\<close> in the handler)\<close>
  "worksheetData data =
     sheet_header
     # map (\<lambda>item. [or_else (title item) '''', or_else (link item) '''',
                      or_else (snippet item) '''', or_else (source item) '''']) data"

definition invalid_data :: response where
  "invalid_data = json 400 (Error ''Invalid data format. Please provide an array of job listings.'')"

definition download_headers :: "string \<Rightarrow> buffer \<Rightarrow> (string \<times> header_value) list" where
  \<comment> \<open>the three \<open>res.setHeader\<close> calls, in order\<close>
  "download_headers filename excelBuffer =
     [(''Content-Type'',
       HStr ''application/vnd.openxmlformats-officedocument.spreadsheetml.sheet''),
      (''Content-Disposition'', HStr (''attachment; filename='' @ filename)),
      (''Content-Length'', HNum (length excelBuffer))]"

fun set_headers ::
  "(string \<Rightarrow> header_value \<Rightarrow> unit thrown) \<Rightarrow> (string \<times> header_value) list
     \<Rightarrow> (string \<times> header_value) list \<times> string option" where
  \<comment> \<open>the headers that were set, and the message of the call that threw, if one did\<close>
  "set_headers setH [] = ([], None)"
| "set_headers setH ((name, v) # rest) =
     (case setH name v of
        Inl msg \<Rightarrow> ([], Some msg)
      | Inr u \<Rightarrow> (case set_headers setH rest of (hs, r) \<Rightarrow> ((name, v) # hs, r)))"

definition exportToExcelHandler ::
  "externals \<Rightarrow> listing option js_data \<Rightarrow> string option \<Rightarrow> response \<times> event list" where
  "exportToExcelHandler ext data filenameOpt =
     (let filename = (case filenameOpt of None \<Rightarrow> ''job_listings.xlsx'' | Some f \<Rightarrow> f)
      in case data of
           Missing \<Rightarrow> (invalid_data, [])
         | NotArray \<Rightarrow> (invalid_data, [])
         | Array items \<Rightarrow>
             if length items = 0 then (invalid_data, [])
             else
               (case those items of
                  None \<Rightarrow> (json 500 (Error (null_TypeError ext)), [])
                | Some listings \<Rightarrow>
                    (let workbook = [(''Job Listings'', worksheetData listings)]
                     in case XLSX_write ext workbook of
                          Inl msg \<Rightarrow> (json 500 (Error msg), [XlsxWrite workbook])
                        | Inr excelBuffer \<Rightarrow>
                            (case set_headers (setHeader ext)
                                    (download_headers filename excelBuffer) of
                               (hs, Some msg) \<Rightarrow>
                                 (\<lparr>status = 500, headers = hs, body = Error msg\<rparr>,
                                  [XlsxWrite workbook])
                             | (hs, None) \<Rightarrow>
                                 (\<lparr>status = 200, headers = hs, body = File excelBuffer\<rparr>,
                                  [XlsxWrite workbook])))))"

subsection \<open>The composite routes of index.js\<close>

definition is_space :: "char \<Rightarrow> bool" where
  \<comment> \<open>the code points below 256 that \<open>\s\<close> matches: tab, line feed, vertical tab, form
      feed, carriage return, space and the no-break space U+00A0\<close>
  "is_space c =
     (c \<in> {CHR 0x09, CHR 0x0A, CHR 0x0B, CHR 0x0C, CHR 0x0D, CHR 0x20, CHR 0xA0})"

fun replace_spaces :: "bool \<Rightarrow> string \<Rightarrow> string" where
  \<comment> \<open>\<open>s.replace(/\s+/g, '_')\<close>; the flag says that the previous character was a space\<close>
  "replace_spaces inside [] = []"
| "replace_spaces inside (c # cs) =
     (if is_space c then
        (if inside then replace_spaces True cs else CHR ''_'' # replace_spaces True cs)
      else c # replace_spaces False cs)"

definition missing_jobTitle :: response where
  "missing_jobTitle = json 400 (Error ''Missing required parameter: jobTitle is required'')"

definition search_to_spreadsheet ::
  "externals \<Rightarrow> env \<Rightarrow> string option \<Rightarrow> string option \<Rightarrow> int option \<Rightarrow> string option
     \<Rightarrow> response \<times> event list" where
  "search_to_spreadsheet ext e jobTitle location maxResultsOpt spreadsheetTitle =
     (let maxResults = (case maxResultsOpt of None \<Rightarrow> 50 | Some m \<Rightarrow> m)
      in if falsy jobTitle then (missing_jobTitle, [])
         else
           (case googleSearchHandler ext e jobTitle location (Some maxResults) of
              (searchRes, calls) \<Rightarrow>
                (case body searchRes of
                   Results results \<Rightarrow>
                     (let ttl = or_else spreadsheetTitle
                                  (template jobTitle @ '' Jobs''
                                   @ (if falsy location then '''' else '' in '' @ template location)
                                   @ '' - '' @ toLocaleDateString ext)
                      in case createSpreadsheetHandler ext e (Some ttl) results of
                           (spreadsheetRes, calls') \<Rightarrow>
                             (case body spreadsheetRes of
                                Spreadsheet spreadsheetId url totalResults \<Rightarrow>
                                  (json 200
                                     (Summary ''Search and spreadsheet creation successful''
                                        (template jobTitle)
                                        (or_else location ''Any location'')
                                        (length results) spreadsheetId url),
                                   calls @ calls')
                              | other \<Rightarrow> (spreadsheetRes, calls @ calls')))
                 | other \<Rightarrow> (searchRes, calls))))"

definition search_to_excel ::
  "externals \<Rightarrow> env \<Rightarrow> string option \<Rightarrow> string option \<Rightarrow> int option \<Rightarrow> string option
     \<Rightarrow> response \<times> event list" where
  "search_to_excel ext e jobTitle location maxResultsOpt filenameOpt =
     (let maxResults = (case maxResultsOpt of None \<Rightarrow> 50 | Some m \<Rightarrow> m)
      in if falsy jobTitle then (missing_jobTitle, [])
         else
           (let defaultFilename =
                  replace_spaces False (template jobTitle)
                  @ (if falsy location then ''''
                     else ''_'' @ replace_spaces False (template location))
                  @ ''_jobs.xlsx'';
                excelFilename = or_else filenameOpt defaultFilename
            in case googleSearchHandler ext e jobTitle location (Some maxResults) of
                 (searchRes, calls) \<Rightarrow>
                   (case body searchRes of
                      Results results \<Rightarrow>
                        (case exportToExcelHandler ext (Array (map Some results))
                                (Some excelFilename) of
                           (excelRes, calls') \<Rightarrow> (excelRes, calls @ calls'))
                    | other \<Rightarrow> (searchRes, calls))))"

subsection \<open>A concrete configuration\<close>

text \<open>
  One instance of the outside world, for evaluating the handlers: the search API has a
  first page of five items and a second page of two, the Sheets and Drive calls succeed,
  the JSON parser knows the texts \<open>{}\<close> and \<open>null\<close> and rejects every other one, and
  setHeader rejects a value that has a line feed.
\<close>

definition ex_item :: api_item where
  "ex_item = \<lparr>item_title = Some ''Looking for Nurse'',
                item_link = Some ''https://www.indeed.com/job/1'',
                item_snippet = Some ''We are looking for a nurse''\<rparr>"

definition ex_listing :: listing where
  "ex_listing = \<lparr>title = Some ''Looking for Nurse'',
                   link = Some ''https://www.indeed.com/job/1'',
                   snippet = Some ''We are looking for a nurse'',
                   source = Some ''www.indeed.com''\<rparr>"

definition ex_axios_get :: "search_params \<Rightarrow> api_item list option thrown" where
  "ex_axios_get p =
     (if param_start p = 1 then Inr (Some (replicate 5 ex_item))
      else Inr (Some (replicate 2 ex_item)))"

definition ex_hostname :: "string \<Rightarrow> string thrown" where
  "ex_hostname u =
     (if u = ''https://www.indeed.com/job/1'' then Inr ''www.indeed.com''
      else Inl ''Invalid URL'')"

definition ex_parse :: "string \<Rightarrow> json thrown" where
  "ex_parse s =
     (if s = ''{}'' then Inr (JObj [])
      else if s = ''null'' then Inr JNull
      else Inl (''Unexpected token '' @ take 1 s @ '' in JSON at position 0''))"

definition ex_create :: "jwt \<Rightarrow> create_request \<Rightarrow> string thrown" where
  "ex_create auth r = Inr ''1abc123''"

definition ex_update :: "jwt \<Rightarrow> update_request \<Rightarrow> unit thrown" where
  "ex_update auth r = Inr ()"

definition ex_permit :: "jwt \<Rightarrow> permission_request \<Rightarrow> unit thrown" where
  "ex_permit auth r = Inr ()"

definition ex_write :: "workbook \<Rightarrow> buffer thrown" where
  "ex_write wb = Inr [0x50, 0x4B, 0x03, 0x04]"

definition ex_write_fails :: "workbook \<Rightarrow> buffer thrown" where
  "ex_write_fails wb = Inl ''Text length must not exceed 32767 characters''"

definition ex_setHeader :: "string \<Rightarrow> header_value \<Rightarrow> unit thrown" where
  "ex_setHeader name v =
     (case v of
        HNum n \<Rightarrow> Inr ()
      | HStr s \<Rightarrow>
          if CHR 0x0A \<in> set s then Inl (''Invalid character in header content: '' @ name)
          else Inr ())"

definition ex_null_TypeError :: string where
  "ex_null_TypeError =
     ''Cannot read properties of null (reading '' @ [CHR 0x27] @ ''title'' @ [CHR 0x27] @ '')''"

definition ex_create_fails :: "jwt \<Rightarrow> create_request \<Rightarrow> string thrown" where
  "ex_create_fails auth r = Inl ''The caller does not have permission''"

definition ex_update_fails :: "jwt \<Rightarrow> update_request \<Rightarrow> unit thrown" where
  "ex_update_fails auth r = Inl ''Quota exceeded''"

definition ex_permit_fails :: "jwt \<Rightarrow> permission_request \<Rightarrow> unit thrown" where
  "ex_permit_fails auth r = Inl ''Sharing is restricted''"

definition ex_ext :: externals where
  "ex_ext = \<lparr>axios_get = ex_axios_get, URL_hostname = ex_hostname,
               JSON_parse = ex_parse, spreadsheets_create = ex_create,
               values_update = ex_update, permissions_create = ex_permit,
               XLSX_write = ex_write, setHeader = ex_setHeader,
               null_TypeError = ex_null_TypeError, toLocaleDateString = ''11/2/2026''\<rparr>"

definition ex_ext_create_fails :: externals where
  "ex_ext_create_fails = ex_ext\<lparr>spreadsheets_create := ex_create_fails\<rparr>"

definition ex_ext_update_fails :: externals where
  "ex_ext_update_fails = ex_ext\<lparr>values_update := ex_update_fails\<rparr>"

definition ex_ext_permit_fails :: externals where
  "ex_ext_permit_fails = ex_ext\<lparr>permissions_create := ex_permit_fails\<rparr>"

definition ex_ext_write_fails :: externals where
  "ex_ext_write_fails = ex_ext\<lparr>XLSX_write := ex_write_fails\<rparr>"

definition ex_filename_two_lines :: string where
  "ex_filename_two_lines = ''jobs'' @ [CHR 0x0A] @ ''.xlsx''"

definition ex_env :: env where
  "ex_env = \<lparr>GOOGLE_API_KEY = Some ''key'', GOOGLE_CX = Some ''engine'',
               GOOGLE_SHEETS_CREDENTIALS = Some ''{}''\<rparr>"

definition ex_env_no_key :: env where
  "ex_env_no_key = ex_env\<lparr>GOOGLE_API_KEY := None\<rparr>"

definition ex_env_bad_credentials :: env where
  "ex_env_bad_credentials = ex_env\<lparr>GOOGLE_SHEETS_CREDENTIALS := Some ''credentials.json''\<rparr>"

definition ex_env_null_credentials :: env where
  "ex_env_null_credentials = ex_env\<lparr>GOOGLE_SHEETS_CREDENTIALS := Some ''null''\<rparr>"

definition ex_query :: string where
  "ex_query = search_query (Some ''Nurse'') None"

section \<open>Properties\<close>

subsection \<open>The search loop, one case at a time\<close>

lemma maxRequestsNeeded_le:
  "maxRequestsNeeded m \<le> k \<longleftrightarrow> m \<le> 10 * k"
proof -
  have "maxRequestsNeeded m \<le> k \<longleftrightarrow> (of_int m :: rat) / 10 \<le> of_int k"
    unfolding maxRequestsNeeded_def by (rule ceiling_le_iff)
  also have "\<dots> \<longleftrightarrow> (of_int m :: rat) \<le> of_int (10 * k)"
    by (simp add: mult.commute)
  also have "\<dots> \<longleftrightarrow> m \<le> 10 * k"
    by (rule of_int_le_iff)
  finally show ?thesis .
qed

lemma search_loop_stop:
  "\<not> int i < n \<Longrightarrow> search_loop ext k c q m n i acc = (Inr acc, [])"
  by (subst search_loop.simps) simp

lemma search_loop_throw:
  "int i < n \<Longrightarrow> axios_get ext (page_params k c q i) = Inl e \<Longrightarrow>
   search_loop ext k c q m n i acc = (Inl e, [AxiosGet (page_params k c q i)])"
  by (subst search_loop.simps) (simp add: Let_def)

lemma search_loop_no_items:
  "int i < n \<Longrightarrow> axios_get ext (page_params k c q i) = Inr None \<Longrightarrow>
   search_loop ext k c q m n i acc = (Inr acc, [AxiosGet (page_params k c q i)])"
  by (subst search_loop.simps) (simp add: Let_def)

lemma search_loop_empty_page:
  "int i < n \<Longrightarrow> axios_get ext (page_params k c q i) = Inr (Some []) \<Longrightarrow>
   search_loop ext k c q m n i acc = (Inr acc, [AxiosGet (page_params k c q i)])"
  by (subst search_loop.simps) (simp add: Let_def)

lemma search_loop_bad_link:
  "int i < n \<Longrightarrow> axios_get ext (page_params k c q i) = Inr (Some items) \<Longrightarrow> items \<noteq> [] \<Longrightarrow>
   format_items (URL_hostname ext) items = Inl e \<Longrightarrow>
   search_loop ext k c q m n i acc = (Inl e, [AxiosGet (page_params k c q i)])"
  by (subst search_loop.simps) (simp add: Let_def)

lemma search_loop_enough:
  "int i < n \<Longrightarrow> axios_get ext (page_params k c q i) = Inr (Some items) \<Longrightarrow> items \<noteq> [] \<Longrightarrow>
   format_items (URL_hostname ext) items = Inr fr \<Longrightarrow> m \<le> int (length (acc @ fr)) \<Longrightarrow>
   search_loop ext k c q m n i acc = (Inr (acc @ fr), [AxiosGet (page_params k c q i)])"
  by (subst search_loop.simps) (simp add: Let_def)

lemma search_loop_next:
  "int i < n \<Longrightarrow> axios_get ext (page_params k c q i) = Inr (Some items) \<Longrightarrow> items \<noteq> [] \<Longrightarrow>
   format_items (URL_hostname ext) items = Inr fr \<Longrightarrow> \<not> m \<le> int (length (acc @ fr)) \<Longrightarrow>
   search_loop ext k c q m n i acc =
     (fst (search_loop ext k c q m n (Suc i) (acc @ fr)),
      AxiosGet (page_params k c q i) # snd (search_loop ext k c q m n (Suc i) (acc @ fr)))"
  by (subst search_loop.simps) (simp add: Let_def split: prod.splits)


lemma format_items_length:
  "format_items h items = Inr fr \<Longrightarrow> length fr = length items"
  by (induction items arbitrary: fr) (auto split: sum.splits)

lemma search_loop_single:
  assumes lt: "int i < n"
    and stop: "\<not> (\<exists>items fr. axios_get ext (page_params k c q i) = Inr (Some items) \<and> items \<noteq> []
                 \<and> format_items (URL_hostname ext) items = Inr fr
                 \<and> \<not> m \<le> int (length (acc @ fr)))"
  shows "snd (search_loop ext k c q m n i acc) = [AxiosGet (page_params k c q i)]"
proof (cases "axios_get ext (page_params k c q i)")
  case (Inl e)
  with lt show ?thesis by (simp add: search_loop_throw)
next
  case (Inr page)
  show ?thesis
  proof (cases page)
    case None
    with lt Inr show ?thesis by (simp add: search_loop_no_items)
  next
    case (Some items)
    show ?thesis
    proof (cases "items = []")
      case True
      with lt Inr Some show ?thesis by (simp add: search_loop_empty_page)
    next
      case False
      show ?thesis
      proof (cases "format_items (URL_hostname ext) items")
        case (Inl e)
        with lt Inr Some False show ?thesis by (simp add: search_loop_bad_link)
      next
        case fr: (Inr formatted)
        with stop Inr Some False have "m \<le> int (length (acc @ formatted))" by blast
        with lt Inr Some False fr show ?thesis by (simp add: search_loop_enough)
      qed
    qed
  qed
qed

lemma search_loop_calls:
  "snd (search_loop ext k c q m n i acc) =
     map (\<lambda>j. AxiosGet (page_params k c q j))
       [i ..< i + length (snd (search_loop ext k c q m n i acc))]"
proof (induction "nat (n - int i)" arbitrary: i acc)
  case 0
  then have "\<not> int i < n" by simp
  then show ?case by (simp add: search_loop_stop)
next
  case (Suc d)
  then have lt: "int i < n" by linarith
  show ?case
  proof (cases "\<exists>items fr. axios_get ext (page_params k c q i) = Inr (Some items) \<and> items \<noteq> []
                 \<and> format_items (URL_hostname ext) items = Inr fr
                 \<and> \<not> m \<le> int (length (acc @ fr))")
    case False
    with lt have "snd (search_loop ext k c q m n i acc) = [AxiosGet (page_params k c q i)]"
      by (rule search_loop_single)
    then show ?thesis by simp
  next
    case True
    then obtain items fr where
      page: "axios_get ext (page_params k c q i) = Inr (Some items)" "items \<noteq> []"
        "format_items (URL_hostname ext) items = Inr fr" "\<not> m \<le> int (length (acc @ fr))"
      by blast
    let ?rest = "snd (search_loop ext k c q m n (Suc i) (acc @ fr))"
    have "d = nat (n - int (Suc i))" using Suc.hyps(2) by simp
    then have IH: "?rest = map (\<lambda>j. AxiosGet (page_params k c q j)) [Suc i ..< Suc i + length ?rest]"
      by (rule Suc.hyps(1))
    have unfold: "snd (search_loop ext k c q m n i acc) = AxiosGet (page_params k c q i) # ?rest"
      by (simp add: search_loop_next [OF lt page])
    have "[i ..< i + Suc (length ?rest)] = i # [Suc i ..< Suc i + length ?rest]"
      by (subst upt_rec) simp
    then have "map (\<lambda>j. AxiosGet (page_params k c q j)) [i ..< i + Suc (length ?rest)] =
          AxiosGet (page_params k c q i) # ?rest"
      using IH by (simp del: upt_Suc)
    then show ?thesis unfolding unfold by (simp del: upt_Suc)
  qed
qed

lemma search_loop_calls_le:
  "int (length (snd (search_loop ext k c q m n i acc))) \<le> max 0 (n - int i)"
proof (induction "nat (n - int i)" arbitrary: i acc)
  case 0
  then have "\<not> int i < n" by simp
  then show ?case by (simp add: search_loop_stop)
next
  case (Suc d)
  then have lt: "int i < n" by linarith
  show ?case
  proof (cases "\<exists>items fr. axios_get ext (page_params k c q i) = Inr (Some items) \<and> items \<noteq> []
                 \<and> format_items (URL_hostname ext) items = Inr fr
                 \<and> \<not> m \<le> int (length (acc @ fr))")
    case False
    with lt have "snd (search_loop ext k c q m n i acc) = [AxiosGet (page_params k c q i)]"
      by (rule search_loop_single)
    with lt show ?thesis by simp
  next
    case True
    then obtain items fr where
      page: "axios_get ext (page_params k c q i) = Inr (Some items)" "items \<noteq> []"
        "format_items (URL_hostname ext) items = Inr fr" "\<not> m \<le> int (length (acc @ fr))"
      by blast
    let ?rest = "snd (search_loop ext k c q m n (Suc i) (acc @ fr))"
    have "d = nat (n - int (Suc i))" using Suc.hyps(2) by simp
    then have IH: "int (length ?rest) \<le> max 0 (n - int (Suc i))"
      by (rule Suc.hyps(1))
    have unfold: "snd (search_loop ext k c q m n i acc) = AxiosGet (page_params k c q i) # ?rest"
      by (simp add: search_loop_next [OF lt page])
    from IH lt show ?thesis unfolding unfold by simp
  qed
qed

lemma search_loop_calls_ge:
  assumes lt: "int i < n"
  shows "1 \<le> length (snd (search_loop ext k c q m n i acc))"
proof (cases "\<exists>items fr. axios_get ext (page_params k c q i) = Inr (Some items) \<and> items \<noteq> []
                 \<and> format_items (URL_hostname ext) items = Inr fr
                 \<and> \<not> m \<le> int (length (acc @ fr))")
  case False
  with lt have "snd (search_loop ext k c q m n i acc) = [AxiosGet (page_params k c q i)]"
    by (rule search_loop_single)
  then show ?thesis by simp
next
  case True
  then obtain items fr where
    page: "axios_get ext (page_params k c q i) = Inr (Some items)" "items \<noteq> []"
      "format_items (URL_hostname ext) items = Inr fr" "\<not> m \<le> int (length (acc @ fr))"
    by blast
  show ?thesis by (simp add: search_loop_next [OF lt page])
qed

lemma googleSearchHandler_run:
  assumes "\<not> falsy (GOOGLE_API_KEY e)" and "\<not> falsy (GOOGLE_CX e)"
  shows "googleSearchHandler ext e jobTitle location (Some m) =
     (case search_loop ext (the (GOOGLE_API_KEY e)) (the (GOOGLE_CX e))
             (search_query jobTitle location) m (maxRequestsNeeded m) 0 [] of
        (Inl msg, calls) \<Rightarrow> (json 500 (Error msg), calls)
      | (Inr allResults, calls) \<Rightarrow> (json 200 (Results (slice0 allResults m)), calls))"
  using assms by (simp add: googleSearchHandler_def)

lemma googleSearchHandler_calls:
  assumes "\<not> falsy (GOOGLE_API_KEY e)" and "\<not> falsy (GOOGLE_CX e)"
  shows "snd (googleSearchHandler ext e jobTitle location (Some m)) =
     snd (search_loop ext (the (GOOGLE_API_KEY e)) (the (GOOGLE_CX e))
             (search_query jobTitle location) m (maxRequestsNeeded m) 0 [])"
  unfolding googleSearchHandler_run [OF assms]
  by (simp split: prod.splits sum.splits)

subsection \<open>The handler around the loop\<close>

lemma googleSearchHandler_default:
  "googleSearchHandler ext e jobTitle location None =
   googleSearchHandler ext e jobTitle location (Some 50)"
  by (simp add: googleSearchHandler_def)

lemma ex_credentials_present:
  "\<not> falsy (GOOGLE_API_KEY ex_env)" "\<not> falsy (GOOGLE_CX ex_env)"
  by (simp_all add: ex_env_def falsy_def)

subsection \<open>Search: number of requests and of results\<close>

text \<open>
  Claim C1, as the code has it. With both search credentials set: for
  \<open>1 \<le> maxResults \<le> 10\<close> exactly one upstream request is made; for \<open>maxResults\<close> in
  \<open>(10, 20]\<close> one or two requests are made, and the second one is made exactly when the
  first page was fetched and formatted without an exception, is not empty and holds
  fewer than \<open>maxResults\<close> items. The loop leaves early only on an exception, on a missing
  or empty page, or on reaching the requested count: a non-empty page of fewer than ten
  items does not stop it.
\<close>

theorem C1_upstream_call_count:
  assumes "\<not> falsy (GOOGLE_API_KEY e)" and "\<not> falsy (GOOGLE_CX e)"
  shows
    "(1 \<le> m \<and> m \<le> 10 \<longrightarrow>
        length (snd (googleSearchHandler ext e jobTitle location (Some m))) = 1) \<and>
     (10 < m \<and> m \<le> 20 \<longrightarrow>
        1 \<le> length (snd (googleSearchHandler ext e jobTitle location (Some m))) \<and>
        length (snd (googleSearchHandler ext e jobTitle location (Some m))) \<le> 2 \<and>
        (length (snd (googleSearchHandler ext e jobTitle location (Some m))) = 2 \<longleftrightarrow>
           (\<exists>items fr.
              axios_get ext (page_params (the (GOOGLE_API_KEY e)) (the (GOOGLE_CX e))
                               (search_query jobTitle location) 0) = Inr (Some items) \<and>
              items \<noteq> [] \<and> format_items (URL_hostname ext) items = Inr fr \<and>
              int (length items) < m)))"
proof -
  let ?k = "the (GOOGLE_API_KEY e)" and ?c = "the (GOOGLE_CX e)"
  let ?q = "search_query jobTitle location"
  let ?calls = "snd (search_loop ext ?k ?c ?q m (maxRequestsNeeded m) 0 [])"
  have calls: "snd (googleSearchHandler ext e jobTitle location (Some m)) = ?calls"
    using assms by (rule googleSearchHandler_calls)
  have one: "length ?calls = 1" if "1 \<le> m" "m \<le> 10"
  proof -
    have "maxRequestsNeeded m \<le> 1" and "\<not> maxRequestsNeeded m \<le> 0"
      using that by (simp_all add: maxRequestsNeeded_le)
    then have "int (length ?calls) \<le> 1" and "1 \<le> length ?calls"
      using search_loop_calls_le [of ext ?k ?c ?q m "maxRequestsNeeded m" 0 "[]"]
        search_loop_calls_ge [of 0 "maxRequestsNeeded m" ext ?k ?c ?q m "[]"]
      by simp_all
    then show ?thesis by simp
  qed
  have two: "1 \<le> length ?calls \<and> length ?calls \<le> 2 \<and>
      (length ?calls = 2 \<longleftrightarrow>
         (\<exists>items fr. axios_get ext (page_params ?k ?c ?q 0) = Inr (Some items) \<and>
            items \<noteq> [] \<and> format_items (URL_hostname ext) items = Inr fr \<and>
            int (length items) < m))"
    if "10 < m" "m \<le> 20"
  proof -
    have n: "maxRequestsNeeded m \<le> 2" "\<not> maxRequestsNeeded m \<le> 1"
      using that by (simp_all add: maxRequestsNeeded_le)
    then have lt0: "int 0 < maxRequestsNeeded m" and lt1: "int (Suc 0) < maxRequestsNeeded m"
      by simp_all
    have le: "int (length ?calls) \<le> 2"
      using search_loop_calls_le [of ext ?k ?c ?q m "maxRequestsNeeded m" 0 "[]"] n by simp
    have ge: "1 \<le> length ?calls"
      using lt0 by (rule search_loop_calls_ge)
    show ?thesis
    proof (cases "\<exists>items fr. axios_get ext (page_params ?k ?c ?q 0) = Inr (Some items) \<and>
            items \<noteq> [] \<and> format_items (URL_hostname ext) items = Inr fr \<and>
            \<not> m \<le> int (length ([] @ fr))")
      case False
      with lt0 have "?calls = [AxiosGet (page_params ?k ?c ?q 0)]"
        by (rule search_loop_single)
      moreover from False have
        "\<not> (\<exists>items fr. axios_get ext (page_params ?k ?c ?q 0) = Inr (Some items) \<and>
            items \<noteq> [] \<and> format_items (URL_hostname ext) items = Inr fr \<and>
            int (length items) < m)"
        by (auto simp: format_items_length)
      ultimately show ?thesis by simp
    next
      case True
      then obtain items fr where
        page: "axios_get ext (page_params ?k ?c ?q 0) = Inr (Some items)" "items \<noteq> []"
          "format_items (URL_hostname ext) items = Inr fr" "\<not> m \<le> int (length ([] @ fr))"
        by blast
      have "1 \<le> length (snd (search_loop ext ?k ?c ?q m (maxRequestsNeeded m) (Suc 0) ([] @ fr)))"
        using lt1 by (rule search_loop_calls_ge)
      then have "2 \<le> length ?calls"
        by (simp add: search_loop_next [OF lt0 page])
      with le have "length ?calls = 2" by simp
      moreover have "int (length items) < m"
        using page(3,4) by (simp add: format_items_length)
      ultimately show ?thesis using page by auto
    qed
  qed
  show ?thesis unfolding calls using one two by blast
qed

text \<open>
  The theorem at the concrete configuration: five requested results take one request;
  twenty requested results take two, the first page holding five items.
\<close>

theorem C1_upstream_call_count_witness:
  "\<not> falsy (GOOGLE_API_KEY ex_env) \<and> \<not> falsy (GOOGLE_CX ex_env) \<and>
   (1::int) \<le> 5 \<and> (5::int) \<le> 10 \<and>
   length (snd (googleSearchHandler ex_ext ex_env (Some ''Nurse'') None (Some 5))) = 1 \<and>
   (10::int) < 20 \<and> (20::int) \<le> 20 \<and>
   length (snd (googleSearchHandler ex_ext ex_env (Some ''Nurse'') None (Some 20))) = 2"
proof -
  note five = C1_upstream_call_count [OF ex_credentials_present,
      where m = 5 and ext = ex_ext and jobTitle = "Some ''Nurse''" and location = None]
  note twenty = C1_upstream_call_count [OF ex_credentials_present,
      where m = 20 and ext = ex_ext and jobTitle = "Some ''Nurse''" and location = None]
  have page: "axios_get ex_ext (page_params (the (GOOGLE_API_KEY ex_env)) (the (GOOGLE_CX ex_env))
      (search_query (Some ''Nurse'') None) 0) = Inr (Some (replicate 5 ex_item))"
    by (simp add: ex_ext_def ex_axios_get_def page_params_def)
  have fmt: "format_items (URL_hostname ex_ext) (replicate 5 ex_item) = Inr (replicate 5 ex_listing)"
    by code_simp
  have "\<exists>items fr. axios_get ex_ext (page_params (the (GOOGLE_API_KEY ex_env))
      (the (GOOGLE_CX ex_env)) (search_query (Some ''Nurse'') None) 0) = Inr (Some items) \<and>
      items \<noteq> [] \<and> format_items (URL_hostname ex_ext) items = Inr fr \<and> int (length items) < 20"
    using page fmt by (intro exI [of _ "replicate 5 ex_item"] exI [of _ "replicate 5 ex_listing"]) simp
  with twenty have "length (snd (googleSearchHandler ex_ext ex_env (Some ''Nurse'') None (Some 20))) = 2"
    by simp
  with five show ?thesis by (simp add: ex_credentials_present)
qed

text \<open>
  Against C1 as written: the first page returns five items, fewer than ten, and the
  request for the second page is made all the same.
\<close>

theorem C1_short_page_counterexample:
  "axios_get ex_ext (page_params ''key'' ''engine'' ex_query 0) = Inr (Some (replicate 5 ex_item)) \<and>
   length (replicate 5 ex_item) < 10 \<and>
   snd (googleSearchHandler ex_ext ex_env (Some ''Nurse'') None (Some 20)) =
     [AxiosGet (page_params ''key'' ''engine'' ex_query 0),
      AxiosGet (page_params ''key'' ''engine'' ex_query 1)]"
  by code_simp

text \<open>
  Claim C2, as the code has it. Whatever the search API returns and whatever
  \<open>maxResults\<close> is requested (50 when the field is omitted), a returned result list has at
  most \<open>max 0 maxResults\<close> elements: at most \<open>maxResults\<close> when that is not negative, and
  none when it is negative.
\<close>

theorem C2_result_count:
  assumes "body (fst (googleSearchHandler ext e jobTitle location maxResultsOpt)) = Results results"
  shows "int (length results) \<le> max 0 (case maxResultsOpt of None \<Rightarrow> 50 | Some m \<Rightarrow> m)"
proof -
  define m where "m = (case maxResultsOpt of None \<Rightarrow> (50::int) | Some m \<Rightarrow> m)"
  let ?loop = "search_loop ext (the (GOOGLE_API_KEY e)) (the (GOOGLE_CX e))
                 (search_query jobTitle location) m (maxRequestsNeeded m) 0 []"
  have present: "\<not> (falsy (GOOGLE_API_KEY e) \<or> falsy (GOOGLE_CX e))"
    using assms by (auto simp: googleSearchHandler_def json_def)
  obtain r calls where loop: "?loop = (r, calls)" by (cases ?loop)
  from assms present loop obtain allResults where
    r: "r = Inr allResults" and results: "results = slice0 allResults m"
    by (cases r) (auto simp: googleSearchHandler_def json_def m_def)
  show ?thesis
  proof (cases "m \<le> 0")
    case True
    then have "\<not> int 0 < maxRequestsNeeded m"
      by (simp add: maxRequestsNeeded_le not_less)
    then have "?loop = (Inr [], [])" by (rule search_loop_stop)
    with loop r have "allResults = []" by simp
    with results show ?thesis by (simp add: slice0_def m_def)
  next
    case False
    with results show ?thesis unfolding m_def [symmetric] by (simp add: slice0_def)
  qed
qed

text \<open>The theorem at the concrete configuration, three results requested.\<close>

theorem C2_result_count_witness:
  "body (fst (googleSearchHandler ex_ext ex_env (Some ''Nurse'') None (Some 3))) =
     Results (replicate 3 ex_listing) \<and>
   int (length (replicate 3 ex_listing)) \<le> max 0 3"
proof -
  have run: "body (fst (googleSearchHandler ex_ext ex_env (Some ''Nurse'') None (Some 3))) =
      Results (replicate 3 ex_listing)"
    by code_simp
  from C2_result_count [OF run] run show ?thesis by simp
qed

text \<open>
  Against C2 as written: with \<open>maxResults = -1\<close> the handler returns the empty list, whose
  length 0 is not at most \<open>-1\<close>.
\<close>

theorem C2_negative_counterexample:
  "body (fst (googleSearchHandler ex_ext ex_env (Some ''Nurse'') None (Some (- 1)))) = Results [] \<and>
   \<not> int (length ([] :: listing list)) \<le> - 1"
  by code_simp

text \<open>
  Claim C10. With both credentials set and \<open>maxResults \<le> 0\<close>, the search handler makes
  no upstream request and answers 200 with the empty result list.
\<close>

theorem C10_no_requests:
  assumes "\<not> falsy (GOOGLE_API_KEY e)" and "\<not> falsy (GOOGLE_CX e)" and "m \<le> 0"
  shows "googleSearchHandler ext e jobTitle location (Some m) = (json 200 (Results []), [])"
proof -
  from \<open>m \<le> 0\<close> have "\<not> int 0 < maxRequestsNeeded m"
    by (simp add: maxRequestsNeeded_le not_less)
  then have "search_loop ext (the (GOOGLE_API_KEY e)) (the (GOOGLE_CX e))
               (search_query jobTitle location) m (maxRequestsNeeded m) 0 [] = (Inr [], [])"
    by (rule search_loop_stop)
  then show ?thesis
    unfolding googleSearchHandler_run [OF assms(1,2)] by (simp add: slice0_def)
qed

text \<open>The theorem at the concrete configuration, for \<open>maxResults = -3\<close>.\<close>

theorem C10_no_requests_witness:
  "\<not> falsy (GOOGLE_API_KEY ex_env) \<and> \<not> falsy (GOOGLE_CX ex_env) \<and> (- 3 :: int) \<le> 0 \<and>
   googleSearchHandler ex_ext ex_env (Some ''Nurse'') None (Some (- 3)) =
     (\<lparr>status = 200, headers = [], body = Results []\<rparr>, [])"
  using C10_no_requests [OF ex_credentials_present, where m = "- 3" and ext = ex_ext
      and jobTitle = "Some ''Nurse''" and location = None] ex_credentials_present
  by (simp add: json_def)

subsection \<open>Search: credentials and the missing job title\<close>

text \<open>
  Claim C4. When GOOGLE_API_KEY or GOOGLE_CX is absent (or empty), the search handler
  answers 500 with a message that names both variables, and makes no upstream request.
\<close>

theorem C4_missing_search_credentials:
  assumes "falsy (GOOGLE_API_KEY e) \<or> falsy (GOOGLE_CX e)"
  shows "googleSearchHandler ext e jobTitle location maxResultsOpt =
     (\<lparr>status = 500, headers = [],
       body = Error ''Missing Google API credentials. Set GOOGLE_API_KEY and GOOGLE_CX environment variables.''\<rparr>,
      [])"
  using assms by (simp add: googleSearchHandler_def json_def)

text \<open>The theorem at a configuration without GOOGLE_API_KEY.\<close>

theorem C4_missing_search_credentials_witness:
  "(falsy (GOOGLE_API_KEY ex_env_no_key) \<or> falsy (GOOGLE_CX ex_env_no_key)) \<and>
   googleSearchHandler ex_ext ex_env_no_key (Some ''Nurse'') None (Some 20) =
     (\<lparr>status = 500, headers = [],
       body = Error ''Missing Google API credentials. Set GOOGLE_API_KEY and GOOGLE_CX environment variables.''\<rparr>,
      [])"
proof -
  have h: "falsy (GOOGLE_API_KEY ex_env_no_key) \<or> falsy (GOOGLE_CX ex_env_no_key)"
    by (simp add: ex_env_no_key_def ex_env_def falsy_def)
  from C4_missing_search_credentials [OF h] h show ?thesis by simp
qed

text \<open>
  Claim C9, as the code has it. The search handler, which the routes /api/search and
  /google_search call with the request as it is, never answers 400 when \<open>jobTitle\<close> is
  omitted: the status is 200 or 500. It goes on to the search API when both credentials
  are set and \<open>maxResults\<close> is at least 1 (50 when omitted): then the first request has
  offset 1, and every request carries the query built from the undefined job title,
  which contains the text \<open>Looking for undefined\<close>.
\<close>

theorem C9_search_without_jobTitle:
  "(status (fst (googleSearchHandler ext e None location maxResultsOpt)) = 200 \<or>
    status (fst (googleSearchHandler ext e None location maxResultsOpt)) = 500) \<and>
   (\<not> falsy (GOOGLE_API_KEY e) \<and> \<not> falsy (GOOGLE_CX e) \<and>
    1 \<le> (case maxResultsOpt of None \<Rightarrow> 50 | Some m \<Rightarrow> m) \<longrightarrow>
      (\<exists>later. snd (googleSearchHandler ext e None location maxResultsOpt) =
         AxiosGet \<lparr>param_key = the (GOOGLE_API_KEY e), param_cx = the (GOOGLE_CX e),
                   param_q = search_query None location, param_num = 10, param_start = 1\<rparr>
         # later) \<and>
      (\<forall>ev \<in> set (snd (googleSearchHandler ext e None location maxResultsOpt)).
         \<exists>p. ev = AxiosGet p \<and> param_q p = search_query None location)) \<and>
   search_query None location =
     ''site:linkedin.com OR site:indeed.com OR site:glassdoor.com OR site:monster.com OR site:ziprecruiter.com ''
     @ [CHR 0x22] @ ''Looking for undefined'' @ [CHR 0x22] @ '' ''
     @ (if falsy location then '''' else [CHR 0x22] @ the location @ [CHR 0x22])"
proof -
  define m where "m = (case maxResultsOpt of None \<Rightarrow> (50::int) | Some m \<Rightarrow> m)"
  have same: "googleSearchHandler ext e None location maxResultsOpt =
      googleSearchHandler ext e None location (Some m)"
    by (cases maxResultsOpt) (simp_all add: m_def googleSearchHandler_default)
  let ?k = "the (GOOGLE_API_KEY e)" and ?c = "the (GOOGLE_CX e)"
  let ?q = "search_query None location"
  let ?calls = "snd (search_loop ext ?k ?c ?q m (maxRequestsNeeded m) 0 [])"
  have st: "status (fst (googleSearchHandler ext e None location (Some m))) = 200 \<or>
      status (fst (googleSearchHandler ext e None location (Some m))) = 500"
    by (auto simp: googleSearchHandler_def json_def Let_def split: prod.splits sum.splits)
  have calls: "(\<exists>later. ?calls = AxiosGet (page_params ?k ?c ?q 0) # later) \<and>
      (\<forall>ev \<in> set ?calls. \<exists>p. ev = AxiosGet p \<and> param_q p = ?q)"
    if "1 \<le> m"
  proof -
    from that have "\<not> maxRequestsNeeded m \<le> 0" by (simp add: maxRequestsNeeded_le)
    then have "int 0 < maxRequestsNeeded m" by simp
    then have "1 \<le> length ?calls" by (rule search_loop_calls_ge)
    then obtain l where l: "length ?calls = Suc l" by (cases "length ?calls") auto
    have eq: "?calls = map (\<lambda>j. AxiosGet (page_params ?k ?c ?q j)) [0 ..< 0 + length ?calls]"
      by (rule search_loop_calls)
    also have "[0 ..< 0 + length ?calls] = 0 # [Suc 0 ..< Suc l]"
      unfolding l by (subst upt_rec) simp
    finally have "\<exists>later. ?calls = AxiosGet (page_params ?k ?c ?q 0) # later"
      by simp
    moreover have "\<forall>ev \<in> set ?calls. \<exists>p. ev = AxiosGet p \<and> param_q p = ?q"
      by (subst eq) (auto simp: page_params_def)
    ultimately show ?thesis by blast
  qed
  have q: "?q =
     ''site:linkedin.com OR site:indeed.com OR site:glassdoor.com OR site:monster.com OR site:ziprecruiter.com ''
     @ [CHR 0x22] @ ''Looking for undefined'' @ [CHR 0x22] @ '' ''
     @ (if falsy location then '''' else [CHR 0x22] @ the location @ [CHR 0x22])"
    by (auto simp: search_query_def template_def falsy_def split: option.splits)
  show ?thesis
    unfolding same
    using st calls q
    by (auto simp: googleSearchHandler_calls m_def [symmetric] page_params_def)
qed

text \<open>The theorem at the concrete configuration, for the empty request body.\<close>

theorem C9_search_without_jobTitle_witness:
  "\<not> falsy (GOOGLE_API_KEY ex_env) \<and> \<not> falsy (GOOGLE_CX ex_env) \<and>
   status (fst (googleSearchHandler ex_ext ex_env None None None)) \<noteq> 400 \<and>
   (\<exists>later. snd (googleSearchHandler ex_ext ex_env None None None) =
      AxiosGet \<lparr>param_key = ''key'', param_cx = ''engine'',
                param_q = ''site:linkedin.com OR site:indeed.com OR site:glassdoor.com OR site:monster.com OR site:ziprecruiter.com ''
                          @ [CHR 0x22] @ ''Looking for undefined'' @ [CHR 0x22] @ '' '',
                param_num = 10, param_start = 1\<rparr> # later)"
  using C9_search_without_jobTitle [where ext = ex_ext and e = ex_env and location = None
      and maxResultsOpt = None] ex_credentials_present
  by (auto simp: ex_env_def falsy_def)

text \<open>
  Against C9 as written: two requests without \<open>jobTitle\<close> that get no validation error
  and yet reach no upstream request. With \<open>maxResults = 0\<close> the answer is 200 with the
  empty list; with GOOGLE_API_KEY unset the answer is the 500 of the credential check.
\<close>

theorem C9_no_upstream_call_counterexample:
  "googleSearchHandler ex_ext ex_env None None (Some 0) =
     (\<lparr>status = 200, headers = [], body = Results []\<rparr>, []) \<and>
   googleSearchHandler ex_ext ex_env_no_key None None None =
     (\<lparr>status = 500, headers = [],
       body = Error ''Missing Google API credentials. Set GOOGLE_API_KEY and GOOGLE_CX environment variables.''\<rparr>,
      [])"
  by code_simp

subsection \<open>Spreadsheet export\<close>

text \<open>
  Claim C3, as the code has it, for a GOOGLE_SHEETS_CREDENTIALS that is set. When
  JSON.parse throws on it, the handler answers 500 with the message of the parser and
  makes no API call; when it parses to a falsy value (\<open>null\<close>, \<open>false\<close>, \<open>0\<close>, the empty
  string), the handler answers 500 with the message that names the credential and makes
  no API call; when the creation, the bulk update or the permission call throws, the
  handler answers 500 with the message of that call.
\<close>

theorem C3_spreadsheet_failures:
  assumes "GOOGLE_SHEETS_CREDENTIALS e = Some s"
  shows
    "(JSON_parse ext s = Inl msg \<longrightarrow>
        createSpreadsheetHandler ext e ttl data = (json 500 (Error msg), [])) \<and>
     (JSON_parse ext s = Inr credentials \<and> \<not> truthy credentials \<longrightarrow>
        createSpreadsheetHandler ext e ttl data =
          (json 500 (Error ''Missing Google Sheets credentials. Set GOOGLE_SHEETS_CREDENTIALS environment variable.''), [])) \<and>
     (JSON_parse ext s = Inr credentials \<and> truthy credentials \<and>
      (spreadsheets_create ext (jwt_client credentials) (creation ttl data) = Inl msg \<or>
       spreadsheets_create ext (jwt_client credentials) (creation ttl data) = Inr spreadsheetId \<and>
       (values_update ext (jwt_client credentials) (bulk_update spreadsheetId data) = Inl msg \<or>
        values_update ext (jwt_client credentials) (bulk_update spreadsheetId data) = Inr () \<and>
        permissions_create ext (jwt_client credentials) (permission spreadsheetId) = Inl msg)) \<longrightarrow>
        fst (createSpreadsheetHandler ext e ttl data) = json 500 (Error msg))"
  using assms by (auto simp: createSpreadsheetHandler_def template_def Let_def)

text \<open>
  The theorem at the concrete configuration: an unparseable credential, the credential
  \<open>null\<close>, and a failure of each of the three API calls.
\<close>

theorem C3_spreadsheet_failures_witness:
  "createSpreadsheetHandler ex_ext ex_env_bad_credentials (Some ''Jobs'') [ex_listing] =
     (json 500 (Error ''Unexpected token c in JSON at position 0''), []) \<and>
   createSpreadsheetHandler ex_ext ex_env_null_credentials (Some ''Jobs'') [ex_listing] =
     (json 500 (Error ''Missing Google Sheets credentials. Set GOOGLE_SHEETS_CREDENTIALS environment variable.''), []) \<and>
   fst (createSpreadsheetHandler ex_ext_create_fails ex_env (Some ''Jobs'') [ex_listing]) =
     json 500 (Error ''The caller does not have permission'') \<and>
   fst (createSpreadsheetHandler ex_ext_update_fails ex_env (Some ''Jobs'') [ex_listing]) =
     json 500 (Error ''Quota exceeded'') \<and>
   fst (createSpreadsheetHandler ex_ext_permit_fails ex_env (Some ''Jobs'') [ex_listing]) =
     json 500 (Error ''Sharing is restricted'')"
proof -
  have bad: "GOOGLE_SHEETS_CREDENTIALS ex_env_bad_credentials = Some ''credentials.json''"
    and null: "GOOGLE_SHEETS_CREDENTIALS ex_env_null_credentials = Some ''null''"
    and good: "GOOGLE_SHEETS_CREDENTIALS ex_env = Some ''{}''"
    by (simp_all add: ex_env_bad_credentials_def ex_env_null_credentials_def ex_env_def)
  have 1: "createSpreadsheetHandler ex_ext ex_env_bad_credentials (Some ''Jobs'') [ex_listing] =
     (json 500 (Error ''Unexpected token c in JSON at position 0''), [])"
    using C3_spreadsheet_failures [OF bad, where ext = ex_ext
        and msg = "''Unexpected token c in JSON at position 0''"]
    by (simp add: ex_ext_def ex_parse_def)
  have 2: "createSpreadsheetHandler ex_ext ex_env_null_credentials (Some ''Jobs'') [ex_listing] =
     (json 500 (Error ''Missing Google Sheets credentials. Set GOOGLE_SHEETS_CREDENTIALS environment variable.''), [])"
    using C3_spreadsheet_failures [OF null, where ext = ex_ext and credentials = JNull]
    by (simp add: ex_ext_def ex_parse_def)
  have 3: "fst (createSpreadsheetHandler ex_ext_create_fails ex_env (Some ''Jobs'') [ex_listing]) =
     json 500 (Error ''The caller does not have permission'')"
    using C3_spreadsheet_failures [OF good, where ext = ex_ext_create_fails
        and credentials = "JObj []" and msg = "''The caller does not have permission''"]
    by (simp add: ex_ext_create_fails_def ex_ext_def ex_parse_def ex_create_fails_def)
  have 4: "fst (createSpreadsheetHandler ex_ext_update_fails ex_env (Some ''Jobs'') [ex_listing]) =
     json 500 (Error ''Quota exceeded'')"
    using C3_spreadsheet_failures [OF good, where ext = ex_ext_update_fails
        and credentials = "JObj []" and msg = "''Quota exceeded''"
        and spreadsheetId = "''1abc123''"]
    by (simp add: ex_ext_update_fails_def ex_ext_def ex_parse_def ex_create_def ex_update_fails_def)
  have 5: "fst (createSpreadsheetHandler ex_ext_permit_fails ex_env (Some ''Jobs'') [ex_listing]) =
     json 500 (Error ''Sharing is restricted'')"
    using C3_spreadsheet_failures [OF good, where ext = ex_ext_permit_fails
        and credentials = "JObj []" and msg = "''Sharing is restricted''"
        and spreadsheetId = "''1abc123''"]
    by (simp add: ex_ext_permit_fails_def ex_ext_def ex_parse_def ex_create_def ex_update_def
        ex_permit_fails_def)
  from 1 2 3 4 5 show ?thesis by blast
qed

text \<open>
  Against C3 as written: for the unparseable credential \<open>credentials.json\<close> the body of the 500
  response is the message of the parser, which names no credential.
\<close>

theorem C3_unparseable_counterexample:
  "GOOGLE_SHEETS_CREDENTIALS ex_env_bad_credentials = Some ''credentials.json'' \<and>
   JSON_parse ex_ext ''credentials.json'' = Inl ''Unexpected token c in JSON at position 0'' \<and>
   createSpreadsheetHandler ex_ext ex_env_bad_credentials (Some ''Jobs'') [ex_listing] =
     (\<lparr>status = 500, headers = [],
       body = Error ''Unexpected token c in JSON at position 0''\<rparr>, [])"
  by code_simp

text \<open>
  Claim C8. When the credentials parse to a truthy value and the three API calls
  succeed, the spreadsheet handler makes exactly three calls: the creation of a document
  with one sheet of \<open>length data + 1\<close> rows and 4 columns, one bulk update that writes the
  header row \<open>Title, Link, Description, Source\<close> followed by one row for each listing, and
  the grant of the role \<open>writer\<close> to \<open>anyone\<close>; the response carries the identifier of the
  document and the URL built from it.
\<close>

theorem C8_spreadsheet_created:
  assumes "JSON_parse ext (template (GOOGLE_SHEETS_CREDENTIALS e)) = Inr credentials"
    and "truthy credentials"
    and "spreadsheets_create ext (jwt_client credentials) (creation ttl data) = Inr spreadsheetId"
    and "values_update ext (jwt_client credentials) (bulk_update spreadsheetId data) = Inr ()"
    and "permissions_create ext (jwt_client credentials) (permission spreadsheetId) = Inr ()"
  shows "createSpreadsheetHandler ext e ttl data =
    (\<lparr>status = 200, headers = [],
      body = Spreadsheet spreadsheetId
               (''https://docs.google.com/spreadsheets/d/'' @ spreadsheetId @ ''/edit?usp=sharing'')
               (length data)\<rparr>,
     [SpreadsheetsCreate (jwt_client credentials)
        \<lparr>doc_title = ttl, sheet_title = ''Job Listings'',
         rowCount = length data + 1, columnCount = 4\<rparr>,
      ValuesUpdate (jwt_client credentials)
        \<lparr>upd_spreadsheetId = spreadsheetId, upd_range = ''Job Listings!A1'',
         valueInputOption = ''RAW'',
         upd_values =
           [Some ''Title'', Some ''Link'', Some ''Description'', Some ''Source'']
           # map (\<lambda>item. [title item, link item, snippet item, source item]) data\<rparr>,
      PermissionsCreate (jwt_client credentials)
        \<lparr>fileId = spreadsheetId, perm_role = ''writer'', perm_type = ''anyone''\<rparr>])"
  using assms
  by (simp add: createSpreadsheetHandler_def Let_def json_def spreadsheetUrl_def creation_def
      bulk_update_def permission_def sheet_values_def sheet_header_def)

text \<open>The theorem at the concrete configuration, with one listing.\<close>

theorem C8_spreadsheet_created_witness:
  "JSON_parse ex_ext (template (GOOGLE_SHEETS_CREDENTIALS ex_env)) = Inr (JObj []) \<and>
   truthy (JObj []) \<and>
   createSpreadsheetHandler ex_ext ex_env (Some ''Jobs'') [ex_listing] =
    (\<lparr>status = 200, headers = [],
      body = Spreadsheet ''1abc123''
               ''https://docs.google.com/spreadsheets/d/1abc123/edit?usp=sharing'' 1\<rparr>,
     [SpreadsheetsCreate (jwt_client (JObj []))
        \<lparr>doc_title = Some ''Jobs'', sheet_title = ''Job Listings'',
         rowCount = 2, columnCount = 4\<rparr>,
      ValuesUpdate (jwt_client (JObj []))
        \<lparr>upd_spreadsheetId = ''1abc123'', upd_range = ''Job Listings!A1'',
         valueInputOption = ''RAW'',
         upd_values =
           [[Some ''Title'', Some ''Link'', Some ''Description'', Some ''Source''],
            [Some ''Looking for Nurse'', Some ''https://www.indeed.com/job/1'',
             Some ''We are looking for a nurse'', Some ''www.indeed.com'']]\<rparr>,
      PermissionsCreate (jwt_client (JObj []))
        \<lparr>fileId = ''1abc123'', perm_role = ''writer'', perm_type = ''anyone''\<rparr>])"
proof -
  have p: "JSON_parse ex_ext (template (GOOGLE_SHEETS_CREDENTIALS ex_env)) = Inr (JObj [])"
    by (simp add: ex_ext_def ex_env_def ex_parse_def template_def)
  have t: "truthy (JObj [])" by simp
  have c: "spreadsheets_create ex_ext (jwt_client (JObj [])) (creation (Some ''Jobs'') [ex_listing]) =
      Inr ''1abc123''"
    by (simp add: ex_ext_def ex_create_def)
  have u: "values_update ex_ext (jwt_client (JObj [])) (bulk_update ''1abc123'' [ex_listing]) = Inr ()"
    by (simp add: ex_ext_def ex_update_def)
  have g: "permissions_create ex_ext (jwt_client (JObj [])) (permission ''1abc123'') = Inr ()"
    by (simp add: ex_ext_def ex_permit_def)
  from C8_spreadsheet_created [OF p t c u g] p show ?thesis
    by (simp add: ex_listing_def)
qed

subsection \<open>File export\<close>

lemma those_map_Some:
  "those (map Some xs) = Some xs"
  by (induction xs) simp_all

lemma those_None:
  "None \<in> set xs \<Longrightarrow> those xs = None"
  by (induction xs) (auto split: option.splits)

text \<open>
  Claim C6, as the code has it. The file export answers 400 with the validation message,
  and writes no workbook, when \<open>data\<close> is missing, is not an array or is the empty array.
  For a non-empty array the workbook is a function of the listings alone, but the export
  can still fail, and every failure is answered 500 with the message of the exception: a
  \<open>null\<close> element makes \<open>data.map\<close> throw before any workbook is written; the XLSX writer
  may throw; a \<open>res.setHeader\<close> call may throw, after the workbook was written. When the
  elements are objects, the writer returns a buffer and the three headers are accepted,
  the answer is the download of that buffer.
\<close>

theorem C6_export_validation:
  "(data = Missing \<or> data = NotArray \<or> data = Array [] \<longrightarrow>
      exportToExcelHandler ext data filenameOpt =
        (\<lparr>status = 400, headers = [],
          body = Error ''Invalid data format. Please provide an array of job listings.''\<rparr>, [])) \<and>
   (data = Array items \<and> None \<in> set items \<longrightarrow>
      exportToExcelHandler ext data filenameOpt =
        (\<lparr>status = 500, headers = [], body = Error (null_TypeError ext)\<rparr>, [])) \<and>
   (data = Array (map Some listings) \<and> listings \<noteq> [] \<and>
    XLSX_write ext [(''Job Listings'', worksheetData listings)] = Inl msg \<longrightarrow>
      exportToExcelHandler ext data filenameOpt =
        (\<lparr>status = 500, headers = [], body = Error msg\<rparr>,
         [XlsxWrite [(''Job Listings'', worksheetData listings)]])) \<and>
   (data = Array (map Some listings) \<and> listings \<noteq> [] \<and>
    XLSX_write ext [(''Job Listings'', worksheetData listings)] = Inr excelBuffer \<and>
    set_headers (setHeader ext)
      (download_headers (case filenameOpt of None \<Rightarrow> ''job_listings.xlsx'' | Some f \<Rightarrow> f)
         excelBuffer) = (hs, Some msg) \<longrightarrow>
      exportToExcelHandler ext data filenameOpt =
        (\<lparr>status = 500, headers = hs, body = Error msg\<rparr>,
         [XlsxWrite [(''Job Listings'', worksheetData listings)]])) \<and>
   (data = Array (map Some listings) \<and> listings \<noteq> [] \<and>
    XLSX_write ext [(''Job Listings'', worksheetData listings)] = Inr excelBuffer \<and>
    setHeader ext ''Content-Type''
      (HStr ''application/vnd.openxmlformats-officedocument.spreadsheetml.sheet'') = Inr () \<and>
    setHeader ext ''Content-Disposition''
      (HStr (''attachment; filename=''
             @ (case filenameOpt of None \<Rightarrow> ''job_listings.xlsx'' | Some f \<Rightarrow> f))) = Inr () \<and>
    setHeader ext ''Content-Length'' (HNum (length excelBuffer)) = Inr () \<longrightarrow>
      exportToExcelHandler ext data filenameOpt =
        (\<lparr>status = 200,
          headers =
            [(''Content-Type'',
              HStr ''application/vnd.openxmlformats-officedocument.spreadsheetml.sheet''),
             (''Content-Disposition'',
              HStr (''attachment; filename=''
                    @ (case filenameOpt of None \<Rightarrow> ''job_listings.xlsx'' | Some f \<Rightarrow> f))),
             (''Content-Length'', HNum (length excelBuffer))],
          body = File excelBuffer\<rparr>,
         [XlsxWrite [(''Job Listings'', worksheetData listings)]]))"
proof -
  have invalid: "exportToExcelHandler ext data filenameOpt =
      (\<lparr>status = 400, headers = [],
        body = Error ''Invalid data format. Please provide an array of job listings.''\<rparr>, [])"
    if "data = Missing \<or> data = NotArray \<or> data = Array []"
    using that by (auto simp: exportToExcelHandler_def invalid_data_def json_def)
  have null: "exportToExcelHandler ext data filenameOpt =
      (\<lparr>status = 500, headers = [], body = Error (null_TypeError ext)\<rparr>, [])"
    if "data = Array items" "None \<in> set items"
  proof -
    from that(2) have "items \<noteq> []" by auto
    with that show ?thesis
      by (simp add: exportToExcelHandler_def those_None json_def)
  qed
  have writer: "exportToExcelHandler ext data filenameOpt =
      (\<lparr>status = 500, headers = [], body = Error msg\<rparr>,
       [XlsxWrite [(''Job Listings'', worksheetData listings)]])"
    if "data = Array (map Some listings)" "listings \<noteq> []"
      "XLSX_write ext [(''Job Listings'', worksheetData listings)] = Inl msg"
    using that by (simp add: exportToExcelHandler_def those_map_Some json_def)
  have header: "exportToExcelHandler ext data filenameOpt =
      (\<lparr>status = 500, headers = hs, body = Error msg\<rparr>,
       [XlsxWrite [(''Job Listings'', worksheetData listings)]])"
    if "data = Array (map Some listings)" "listings \<noteq> []"
      "XLSX_write ext [(''Job Listings'', worksheetData listings)] = Inr excelBuffer"
      "set_headers (setHeader ext)
         (download_headers (case filenameOpt of None \<Rightarrow> ''job_listings.xlsx'' | Some f \<Rightarrow> f)
            excelBuffer) = (hs, Some msg)"
    using that by (simp add: exportToExcelHandler_def those_map_Some)
  have download: "exportToExcelHandler ext data filenameOpt =
      (\<lparr>status = 200,
        headers =
          [(''Content-Type'',
            HStr ''application/vnd.openxmlformats-officedocument.spreadsheetml.sheet''),
           (''Content-Disposition'',
            HStr (''attachment; filename=''
                  @ (case filenameOpt of None \<Rightarrow> ''job_listings.xlsx'' | Some f \<Rightarrow> f))),
           (''Content-Length'', HNum (length excelBuffer))],
        body = File excelBuffer\<rparr>,
       [XlsxWrite [(''Job Listings'', worksheetData listings)]])"
    if "data = Array (map Some listings)" "listings \<noteq> []"
      "XLSX_write ext [(''Job Listings'', worksheetData listings)] = Inr excelBuffer"
      "setHeader ext ''Content-Type''
         (HStr ''application/vnd.openxmlformats-officedocument.spreadsheetml.sheet'') = Inr ()"
      "setHeader ext ''Content-Disposition''
         (HStr (''attachment; filename=''
                @ (case filenameOpt of None \<Rightarrow> ''job_listings.xlsx'' | Some f \<Rightarrow> f))) = Inr ()"
      "setHeader ext ''Content-Length'' (HNum (length excelBuffer)) = Inr ()"
    using that
    by (simp add: exportToExcelHandler_def those_map_Some download_headers_def)
  from invalid null writer header download show ?thesis by blast
qed

text \<open>
  The theorem at the concrete configuration: the three rejected inputs, an array with a
  \<open>null\<close> element, a writer that throws, a file name with a line feed, and the export
  of one listing.
\<close>

theorem C6_export_validation_witness:
  "exportToExcelHandler ex_ext Missing None =
     (\<lparr>status = 400, headers = [],
       body = Error ''Invalid data format. Please provide an array of job listings.''\<rparr>, []) \<and>
   exportToExcelHandler ex_ext NotArray None =
     (\<lparr>status = 400, headers = [],
       body = Error ''Invalid data format. Please provide an array of job listings.''\<rparr>, []) \<and>
   exportToExcelHandler ex_ext (Array []) None =
     (\<lparr>status = 400, headers = [],
       body = Error ''Invalid data format. Please provide an array of job listings.''\<rparr>, []) \<and>
   exportToExcelHandler ex_ext (Array [Some ex_listing, None]) None =
     (\<lparr>status = 500, headers = [], body = Error ex_null_TypeError\<rparr>, []) \<and>
   exportToExcelHandler ex_ext_write_fails (Array [Some ex_listing]) None =
     (\<lparr>status = 500, headers = [],
       body = Error ''Text length must not exceed 32767 characters''\<rparr>,
      [XlsxWrite [(''Job Listings'', worksheetData [ex_listing])]]) \<and>
   exportToExcelHandler ex_ext (Array [Some ex_listing]) (Some ex_filename_two_lines) =
     (\<lparr>status = 500,
       headers =
         [(''Content-Type'',
           HStr ''application/vnd.openxmlformats-officedocument.spreadsheetml.sheet'')],
       body = Error ''Invalid character in header content: Content-Disposition''\<rparr>,
      [XlsxWrite [(''Job Listings'', worksheetData [ex_listing])]]) \<and>
   exportToExcelHandler ex_ext (Array [Some ex_listing]) None =
     (\<lparr>status = 200,
       headers =
         [(''Content-Type'',
           HStr ''application/vnd.openxmlformats-officedocument.spreadsheetml.sheet''),
          (''Content-Disposition'', HStr ''attachment; filename=job_listings.xlsx''),
          (''Content-Length'', HNum 4)],
       body = File [0x50, 0x4B, 0x03, 0x04]\<rparr>,
      [XlsxWrite [(''Job Listings'', worksheetData [ex_listing])]])"
proof -
  have w: "XLSX_write ex_ext [(''Job Listings'', worksheetData [ex_listing])] =
      Inr [0x50, 0x4B, 0x03, 0x04]"
    by (simp add: ex_ext_def ex_write_def)
  have wf: "XLSX_write ex_ext_write_fails [(''Job Listings'', worksheetData [ex_listing])] =
      Inl ''Text length must not exceed 32767 characters''"
    by (simp add: ex_ext_write_fails_def ex_ext_def ex_write_fails_def)
  have hf: "set_headers (setHeader ex_ext)
      (download_headers (case Some ex_filename_two_lines of
                           None \<Rightarrow> ''job_listings.xlsx'' | Some f \<Rightarrow> f)
         [0x50, 0x4B, 0x03, 0x04]) =
      ([(''Content-Type'',
         HStr ''application/vnd.openxmlformats-officedocument.spreadsheetml.sheet'')],
       Some ''Invalid character in header content: Content-Disposition'')"
    by (simp add: ex_ext_def ex_setHeader_def download_headers_def ex_filename_two_lines_def)
  have h1: "setHeader ex_ext ''Content-Type''
      (HStr ''application/vnd.openxmlformats-officedocument.spreadsheetml.sheet'') = Inr ()"
    and h2: "setHeader ex_ext ''Content-Disposition''
      (HStr (''attachment; filename=''
             @ (case None of None \<Rightarrow> ''job_listings.xlsx'' | Some f \<Rightarrow> f))) = Inr ()"
    and h3: "setHeader ex_ext ''Content-Length''
      (HNum (length [0x50 :: 8 word, 0x4B, 0x03, 0x04])) = Inr ()"
    by (simp_all add: ex_ext_def ex_setHeader_def)
  have 1: "exportToExcelHandler ex_ext Missing None =
     (\<lparr>status = 400, headers = [],
       body = Error ''Invalid data format. Please provide an array of job listings.''\<rparr>, [])"
    using C6_export_validation [where ext = ex_ext and data = Missing and filenameOpt = None]
    by simp
  have 2: "exportToExcelHandler ex_ext NotArray None =
     (\<lparr>status = 400, headers = [],
       body = Error ''Invalid data format. Please provide an array of job listings.''\<rparr>, [])"
    using C6_export_validation [where ext = ex_ext and data = NotArray and filenameOpt = None]
    by simp
  have 3: "exportToExcelHandler ex_ext (Array []) None =
     (\<lparr>status = 400, headers = [],
       body = Error ''Invalid data format. Please provide an array of job listings.''\<rparr>, [])"
    using C6_export_validation [where ext = ex_ext and data = "Array []" and filenameOpt = None]
    by simp
  have 4: "exportToExcelHandler ex_ext (Array [Some ex_listing, None]) None =
     (\<lparr>status = 500, headers = [], body = Error ex_null_TypeError\<rparr>, [])"
    using C6_export_validation [where ext = ex_ext and data = "Array [Some ex_listing, None]"
        and items = "[Some ex_listing, None]" and filenameOpt = None]
    by (simp add: ex_ext_def)
  have 5: "exportToExcelHandler ex_ext_write_fails (Array [Some ex_listing]) None =
     (\<lparr>status = 500, headers = [],
       body = Error ''Text length must not exceed 32767 characters''\<rparr>,
      [XlsxWrite [(''Job Listings'', worksheetData [ex_listing])]])"
    using C6_export_validation [where ext = ex_ext_write_fails
        and data = "Array [Some ex_listing]" and listings = "[ex_listing]"
        and filenameOpt = None and msg = "''Text length must not exceed 32767 characters''"] wf
    by simp
  have 6: "exportToExcelHandler ex_ext (Array [Some ex_listing]) (Some ex_filename_two_lines) =
     (\<lparr>status = 500,
       headers =
         [(''Content-Type'',
           HStr ''application/vnd.openxmlformats-officedocument.spreadsheetml.sheet'')],
       body = Error ''Invalid character in header content: Content-Disposition''\<rparr>,
      [XlsxWrite [(''Job Listings'', worksheetData [ex_listing])]])"
    using C6_export_validation [where ext = ex_ext
        and data = "Array [Some ex_listing]" and listings = "[ex_listing]"
        and filenameOpt = "Some ex_filename_two_lines"
        and excelBuffer = "[0x50, 0x4B, 0x03, 0x04]"
        and hs = "[(''Content-Type'',
           HStr ''application/vnd.openxmlformats-officedocument.spreadsheetml.sheet'')]"
        and msg = "''Invalid character in header content: Content-Disposition''"] w hf
    by simp
  have 7: "exportToExcelHandler ex_ext (Array [Some ex_listing]) None =
     (\<lparr>status = 200,
       headers =
         [(''Content-Type'',
           HStr ''application/vnd.openxmlformats-officedocument.spreadsheetml.sheet''),
          (''Content-Disposition'', HStr ''attachment; filename=job_listings.xlsx''),
          (''Content-Length'', HNum 4)],
       body = File [0x50, 0x4B, 0x03, 0x04]\<rparr>,
      [XlsxWrite [(''Job Listings'', worksheetData [ex_listing])]])"
    using C6_export_validation [where ext = ex_ext
        and data = "Array [Some ex_listing]" and listings = "[ex_listing]"
        and filenameOpt = None and excelBuffer = "[0x50, 0x4B, 0x03, 0x04]"] w h1 h2 h3
    by simp
  from 1 2 3 4 5 6 7 show ?thesis by blast
qed

text \<open>
  Against C6 as written: two non-empty arrays for which the export fails. The array
  \<open>[null]\<close> is answered 500 by the handler's own \<open>data.map\<close>, and an array of one listing
  is answered 500 when the XLSX writer throws.
\<close>

theorem C6_failure_counterexample:
  "exportToExcelHandler ex_ext (Array [None]) None =
     (\<lparr>status = 500, headers = [], body = Error ex_null_TypeError\<rparr>, []) \<and>
   exportToExcelHandler ex_ext_write_fails (Array [Some ex_listing]) None =
     (\<lparr>status = 500, headers = [],
       body = Error ''Text length must not exceed 32767 characters''\<rparr>,
      [XlsxWrite [(''Job Listings'', worksheetData [ex_listing])]])"
  by (simp add: exportToExcelHandler_def ex_ext_write_fails_def ex_ext_def ex_write_fails_def
      json_def)

text \<open>
  Claim C7. For the listing \<open>{title: "A", link: "http://x.com/1", snippet: "s", source:
  "x.com"}\<close> the worksheet has the header row \<open>Title, Link, Description, Source\<close> and then
  the row \<open>A, http://x.com/1, s, x.com\<close>; for every non-empty list of listings the
  worksheet is the header row followed by one row for each listing, in order, a missing
  or empty field giving the empty cell.
\<close>

theorem C7_worksheet_rows:
  "snd (exportToExcelHandler ext
          (Array [Some \<lparr>title = Some ''A'', link = Some ''http://x.com/1'',
                        snippet = Some ''s'', source = Some ''x.com''\<rparr>]) filenameOpt) =
     [XlsxWrite [(''Job Listings'',
        [[''Title'', ''Link'', ''Description'', ''Source''],
         [''A'', ''http://x.com/1'', ''s'', ''x.com'']])]] \<and>
   (items \<noteq> [] \<longrightarrow>
      snd (exportToExcelHandler ext (Array (map Some items)) filenameOpt) =
        [XlsxWrite [(''Job Listings'',
           [''Title'', ''Link'', ''Description'', ''Source'']
           # map (\<lambda>item. [or_else (title item) '''', or_else (link item) '''',
                            or_else (snippet item) '''', or_else (source item) '''']) items)]])"
proof -
  have events: "snd (exportToExcelHandler ext (Array (map Some ls)) filenameOpt) =
      [XlsxWrite [(''Job Listings'', worksheetData ls)]]" if "ls \<noteq> []" for ls
    using that
    by (simp add: exportToExcelHandler_def those_map_Some Let_def
        split: sum.splits prod.splits option.splits)
  have "snd (exportToExcelHandler ext
          (Array (map Some [\<lparr>title = Some ''A'', link = Some ''http://x.com/1'',
                             snippet = Some ''s'', source = Some ''x.com''\<rparr>])) filenameOpt) =
     [XlsxWrite [(''Job Listings'',
        [[''Title'', ''Link'', ''Description'', ''Source''],
         [''A'', ''http://x.com/1'', ''s'', ''x.com'']])]]"
    by (subst events) (simp_all add: worksheetData_def sheet_header_def or_else_def falsy_def)
  moreover have "snd (exportToExcelHandler ext (Array (map Some items)) filenameOpt) =
        [XlsxWrite [(''Job Listings'',
           [''Title'', ''Link'', ''Description'', ''Source'']
           # map (\<lambda>item. [or_else (title item) '''', or_else (link item) '''',
                            or_else (snippet item) '''', or_else (source item) '''']) items)]]"
    if "items \<noteq> []"
    using that by (subst events) (simp_all add: worksheetData_def sheet_header_def)
  ultimately show ?thesis by simp
qed

text \<open>The general part of the theorem at one listing of the concrete configuration.\<close>

theorem C7_worksheet_rows_witness:
  "[ex_listing] \<noteq> [] \<and>
   snd (exportToExcelHandler ex_ext (Array [Some ex_listing]) None) =
     [XlsxWrite [(''Job Listings'',
        [[''Title'', ''Link'', ''Description'', ''Source''],
         [''Looking for Nurse'', ''https://www.indeed.com/job/1'',
          ''We are looking for a nurse'', ''www.indeed.com'']])]]"
  using C7_worksheet_rows [where ext = ex_ext and items = "[ex_listing]" and filenameOpt = None]
  by (simp add: ex_listing_def or_else_def falsy_def)

subsection \<open>The composite routes\<close>

text \<open>
  Claim C5. A request to /api/search-to-spreadsheet or to /api/search-to-excel whose body
  has no \<open>jobTitle\<close> is answered 400 with a message that says \<open>jobTitle\<close> is required; no
  search request, no spreadsheet call and no workbook are made.
\<close>

theorem C5_jobTitle_required:
  "search_to_spreadsheet ext e None location maxResultsOpt spreadsheetTitle =
     (\<lparr>status = 400, headers = [],
       body = Error ''Missing required parameter: jobTitle is required''\<rparr>, []) \<and>
   search_to_excel ext e None location maxResultsOpt filenameOpt =
     (\<lparr>status = 400, headers = [],
       body = Error ''Missing required parameter: jobTitle is required''\<rparr>, [])"
  by (simp add: search_to_spreadsheet_def search_to_excel_def falsy_def missing_jobTitle_def
      json_def)

text \<open>The theorem at the concrete configuration.\<close>

theorem C5_jobTitle_required_witness:
  "search_to_spreadsheet ex_ext ex_env None (Some ''New York'') (Some 20) None =
     (\<lparr>status = 400, headers = [],
       body = Error ''Missing required parameter: jobTitle is required''\<rparr>, []) \<and>
   search_to_excel ex_ext ex_env None (Some ''New York'') (Some 20) None =
     (\<lparr>status = 400, headers = [],
       body = Error ''Missing required parameter: jobTitle is required''\<rparr>, [])"
  by (rule C5_jobTitle_required)

end
